theory Spec2Isabelle
  imports Main "HOL-Library.Word"
begin

section \<open>JavaScript strings\<close>

text \<open>
  A JavaScript string is a sequence of UTF-16 code units; \<open>s.length\<close> counts code
  units, which is what \<open>z.string().min(n)\<close> compares against.  String literals of
  the source are ASCII and are written through \<open>js\<close>.
\<close>

type_synonym code_unit = "16 word"
type_synonym jsstring = "code_unit list"

definition js :: "string \<Rightarrow> jsstring" where
  "js s = map (\<lambda>c. of_nat (of_char c)) s"

text \<open>
  \<open>String.prototype.trim\<close> removes WhiteSpace and LineTerminator code units from both
  ends: TAB, LF, VT, FF, CR, SP, NBSP, U+1680, U+2000 .. U+200A, U+2028, U+2029, U+202F,
  U+205F, U+3000 and U+FEFF.
\<close>

definition whiteSpace :: "code_unit list" where
  "whiteSpace =
     [0x0009, 0x000A, 0x000B, 0x000C, 0x000D, 0x0020, 0x00A0, 0x1680,
      0x2000, 0x2001, 0x2002, 0x2003, 0x2004, 0x2005, 0x2006, 0x2007,
      0x2008, 0x2009, 0x200A, 0x2028, 0x2029, 0x202F, 0x205F, 0x3000, 0xFEFF]"

definition isWhiteSpace :: "code_unit \<Rightarrow> bool" where
  "isWhiteSpace c \<longleftrightarrow> List.member whiteSpace c"

definition trimStart :: "jsstring \<Rightarrow> jsstring" where
  "trimStart s = dropWhile isWhiteSpace s"

definition trimEnd :: "jsstring \<Rightarrow> jsstring" where
  "trimEnd s = rev (dropWhile isWhiteSpace (rev s))"

definition trim :: "jsstring \<Rightarrow> jsstring" where
  "trim s = trimEnd (trimStart s)"

text \<open>
  A value that may be \<open>undefined\<close> is an option.  \<open>v?.trim()\<close> is \<open>undefined\<close> when
  \<open>v\<close> is, and \<open>v || ""\<close> replaces the falsy values (\<open>undefined\<close> and the empty string)
  by the empty string.
\<close>

definition optTrim :: "jsstring option \<Rightarrow> jsstring option" where
  "optTrim v = (case v of None \<Rightarrow> None | Some s \<Rightarrow> Some (trim s))"

definition truthy :: "jsstring option \<Rightarrow> bool" where
  "truthy v = (case v of None \<Rightarrow> False | Some s \<Rightarrow> s \<noteq> [])"

definition orEmpty :: "jsstring option \<Rightarrow> jsstring" where
  "orEmpty v = (case v of None \<Rightarrow> [] | Some s \<Rightarrow> if truthy v then s else [])"

section \<open>The form values and the validation schema\<close>

text \<open>
  The six fields of the form.  \<open>ITEquipmentFormValues\<close> holds a string in each;
  \<open>Partial<ITEquipmentFormValues>\<close> may leave any of them undefined.
\<close>

record 'a ITEquipmentFields =
  name :: 'a
  category :: 'a
  totalQuantity :: 'a
  model :: 'a
  location :: 'a
  dateAcquired :: 'a

type_synonym ITEquipmentFormValues = "jsstring ITEquipmentFields"
type_synonym PartialFormValues = "jsstring option ITEquipmentFields"

datatype fieldName = Name | Category | TotalQuantity | Model | Location | DateAcquired

fun getField :: "fieldName \<Rightarrow> 'a ITEquipmentFields \<Rightarrow> 'a" where
  "getField Name d = name d"
| "getField Category d = category d"
| "getField TotalQuantity d = totalQuantity d"
| "getField Model d = model d"
| "getField Location d = location d"
| "getField DateAcquired d = dateAcquired d"

fun setField :: "fieldName \<Rightarrow> 'a \<Rightarrow> 'a ITEquipmentFields \<Rightarrow> 'a ITEquipmentFields" where
  "setField Name v d = d\<lparr>name := v\<rparr>"
| "setField Category v d = d\<lparr>category := v\<rparr>"
| "setField TotalQuantity v d = d\<lparr>totalQuantity := v\<rparr>"
| "setField Model v d = d\<lparr>model := v\<rparr>"
| "setField Location v d = d\<lparr>location := v\<rparr>"
| "setField DateAcquired v d = d\<lparr>dateAcquired := v\<rparr>"

text \<open>
  \<open>itEquipmentFormSchema\<close>: every key is \<open>z.string().min(n, message)\<close>, listed in the
  order of the source.
\<close>

definition itEquipmentFormSchema :: "(fieldName \<times> nat \<times> string) list" where
  "itEquipmentFormSchema =
     [(Name, 2, ''Name must be at least 2 characters''),
      (Category, 1, ''Category is required''),
      (TotalQuantity, 1, ''Total quantity is required''),
      (Model, 1, ''Model is required''),
      (Location, 1, ''Location is required''),
      (DateAcquired, 1, ''Date acquired is required'')]"

text \<open>
  An issue of the schema library carries the path of the offending value, empty for the
  object as a whole, and a message.
\<close>

record ZodIssue =
  path :: "fieldName list"
  message :: string

text \<open>\<open>z.string().min(n, msg)\<close> reports \<open>msg\<close> when the string has fewer than \<open>n\<close> code units.\<close>

definition string_min :: "nat \<Rightarrow> string \<Rightarrow> jsstring \<Rightarrow> string list" where
  "string_min n msg v = (if length v < n then [msg] else [])"

definition checkField :: "ITEquipmentFormValues \<Rightarrow> fieldName \<times> nat \<times> string \<Rightarrow> ZodIssue list" where
  "checkField d = (\<lambda>(f, n, msg).
     map (\<lambda>m. \<lparr>path = [f], message = m\<rparr>) (string_min n msg (getField f d)))"

definition parseIssues :: "ITEquipmentFormValues \<Rightarrow> ZodIssue list" where
  "parseIssues d = concat (map (checkField d) itEquipmentFormSchema)"

definition safeParse :: "ITEquipmentFormValues \<Rightarrow> ZodIssue list + ITEquipmentFormValues" where
  "safeParse d = (let issues = parseIssues d in if issues = [] then Inr d else Inl issues)"

text \<open>
  \<open>zodResolver\<close> turns the issues into the form's error object, keyed by field; the first
  issue of a path is the one kept.  An issue with any other path is not a field error.
\<close>

fun toFieldErrors :: "ZodIssue list \<Rightarrow> (fieldName \<rightharpoonup> string)" where
  "toFieldErrors [] = Map.empty"
| "toFieldErrors (i # rest) =
     (case path i of
        [f] \<Rightarrow> (toFieldErrors rest)(f \<mapsto> message i)
      | _ \<Rightarrow> toFieldErrors rest)"

definition fieldErrors :: "ITEquipmentFormValues \<Rightarrow> (fieldName \<rightharpoonup> string)" where
  "fieldErrors d = toFieldErrors (parseIssues d)"

definition globalIssues :: "ZodIssue list \<Rightarrow> ZodIssue list" where
  "globalIssues issues = filter (\<lambda>i. path i = []) issues"

section \<open>The form component\<close>

text \<open>
  The state of the mounted form: the current values of the six inputs, the default values
  the form library captured at mount, the errors it currently shows under the fields
  (\<open>FormMessage\<close>), the validity flag \<open>formState.isValid\<close> the library caches,
  whether a render has read that flag, and the arguments the caller's \<open>onSubmit\<close> has
  been called with, oldest first.
\<close>

record FormState =
  formValues :: ITEquipmentFormValues
  formDefaults :: ITEquipmentFormValues
  formErrors :: "fieldName \<rightharpoonup> string"
  isValid :: bool
  isValidSubscribed :: bool
  onSubmitCalls :: "ITEquipmentFormValues list"

text \<open>The value of the \<open>defaultValues\<close> parameter when the caller passes none.\<close>

definition defaultValuesParam :: PartialFormValues where
  "defaultValuesParam =
     \<lparr>name = Some [], category = Some [], totalQuantity = Some [],
      model = Some [], location = Some [], dateAcquired = Some []\<rparr>"

text \<open>The \<open>defaultValues\<close> object handed to \<open>useForm\<close>.\<close>

definition useFormDefaultValues :: "PartialFormValues option \<Rightarrow> ITEquipmentFormValues" where
  "useFormDefaultValues prop =
     (let defaultValues = (case prop of None \<Rightarrow> defaultValuesParam | Some p \<Rightarrow> p)
      in \<lparr>name = orEmpty (name defaultValues),
          category = orEmpty (category defaultValues),
          totalQuantity = orEmpty (totalQuantity defaultValues),
          model = orEmpty (model defaultValues),
          location = orEmpty (location defaultValues),
          dateAcquired = orEmpty (dateAcquired defaultValues)\<rparr>)"

text \<open>The resolver reports no error for the values.\<close>

definition schemaAccepts :: "ITEquipmentFormValues \<Rightarrow> bool" where
  "schemaAccepts d = (case safeParse d of Inl issues \<Rightarrow> False | Inr values \<Rightarrow> True)"

text \<open>
  \<open>formState.isValid\<close> is a flag the form library keeps, initially false.  The library
  recomputes it, by running the resolver on the current values, after the mount, after a
  change and after a reset, and only if some render has read the flag before.  The
  component reads it in \<open>isLoading || !form.formState.isValid\<close>, which does not evaluate
  its right operand when \<open>isLoading\<close> is true: a render with \<open>isLoading\<close> true does not
  read the flag.  The model looks at the flag once the validation an event has started
  has settled.
\<close>

definition updateValid :: "FormState \<Rightarrow> FormState" where
  "updateValid s =
     (if isValidSubscribed s then s\<lparr>isValid := schemaAccepts (formValues s)\<rparr> else s)"

definition render :: "bool \<Rightarrow> FormState \<Rightarrow> FormState" where
  "render isLoading s = (if isLoading then s else s\<lparr>isValidSubscribed := True\<rparr>)"

text \<open>The mount: the first render with the caller's properties, then the first validation.\<close>

definition mount :: "bool \<Rightarrow> PartialFormValues option \<Rightarrow> FormState" where
  "mount isLoading prop =
     updateValid (render isLoading
       \<lparr>formValues = useFormDefaultValues prop,
        formDefaults = useFormDefaultValues prop,
        formErrors = Map.empty,
        isValid = False,
        isValidSubscribed = False,
        onSubmitCalls = []\<rparr>)"

text \<open>
  \<open>handleSubmit\<close> of the component: it builds \<open>sanitizedValues\<close> and calls \<open>onSubmit\<close>
  with it.  Its parameter is read with \<open>?.\<close> and \<open>||\<close>, so the model lets each field be
  undefined.
\<close>

definition sanitizedValues :: "PartialFormValues \<Rightarrow> ITEquipmentFormValues" where
  "sanitizedValues values =
     \<lparr>name = orEmpty (optTrim (name values)),
      category = orEmpty (optTrim (category values)),
      totalQuantity = orEmpty (optTrim (totalQuantity values)),
      model = orEmpty (optTrim (model values)),
      location = orEmpty (optTrim (location values)),
      dateAcquired = orEmpty (dateAcquired values)\<rparr>"

definition handleSubmit :: "PartialFormValues \<Rightarrow> FormState \<Rightarrow> FormState" where
  "handleSubmit values s = s\<lparr>onSubmitCalls := onSubmitCalls s @ [sanitizedValues values]\<rparr>"

text \<open>Values in which every field is a string, seen as values in which none is undefined.\<close>

definition defined :: "ITEquipmentFormValues \<Rightarrow> PartialFormValues" where
  "defined d =
     \<lparr>name = Some (name d), category = Some (category d),
      totalQuantity = Some (totalQuantity d), model = Some (model d),
      location = Some (location d), dateAcquired = Some (dateAcquired d)\<rparr>"

text \<open>
  \<open>form.handleSubmit(handleSubmit)\<close> of the form library: it runs the resolver on the
  current values; on issues it stores the field errors and calls nothing, otherwise it
  clears the errors and calls \<open>handleSubmit\<close> with the parsed values.
\<close>

definition form_handleSubmit :: "FormState \<Rightarrow> FormState" where
  "form_handleSubmit s =
     (case safeParse (formValues s) of
        Inl issues \<Rightarrow> s\<lparr>formErrors := toFieldErrors issues\<rparr>
      | Inr values \<Rightarrow> handleSubmit (defined values) (s\<lparr>formErrors := Map.empty\<rparr>))"

text \<open>
  \<open>form.reset()\<close> without arguments: back to the default values of the mount, no errors,
  and the validity flag recomputed.
\<close>

definition form_reset :: "FormState \<Rightarrow> FormState" where
  "form_reset s = updateValid (s\<lparr>formValues := formDefaults s, formErrors := Map.empty\<rparr>)"

text \<open>What the two buttons render, given the \<open>isLoading\<close> property.\<close>

definition resetDisabled :: "bool \<Rightarrow> bool" where
  "resetDisabled isLoading = isLoading"

definition submitDisabled :: "bool \<Rightarrow> FormState \<Rightarrow> bool" where
  "submitDisabled isLoading s \<longleftrightarrow> isLoading \<or> \<not> isValid s"

definition submitLabel :: "bool \<Rightarrow> string" where
  "submitLabel isLoading = (if isLoading then ''Creating...'' else ''Create Equipment'')"

text \<open>
  The events.  A change of an input stores the new value and, in mode \<open>onChange\<close>,
  validates: the error of the changed field is shown or removed, and the validity flag is
  recomputed.  A disabled button does not react; a form whose submit button is disabled
  is not submitted by the Enter key either.  \<open>Rerender\<close> is a render the caller causes,
  with no action of the user.  The \<open>isLoading\<close> property is the caller's and may differ
  from event to event; an event meets the form as last rendered, with the \<open>isLoading\<close> of
  that moment.
\<close>

datatype event = Change fieldName jsstring | ClickReset | ClickSubmit | Rerender

text \<open>
  The number and date inputs of a browser deliver fewer strings than a text input does;
  \<open>Change\<close> allows any string in any field, so every run of the component is a run of the
  model.
\<close>

fun handleEvent :: "bool \<Rightarrow> FormState \<Rightarrow> event \<Rightarrow> FormState" where
  "handleEvent isLoading s (Change f v) =
     (let d = setField f v (formValues s)
      in updateValid (s\<lparr>formValues := d, formErrors := (formErrors s)(f := fieldErrors d f)\<rparr>))"
| "handleEvent isLoading s ClickReset =
     (if resetDisabled isLoading then s else form_reset s)"
| "handleEvent isLoading s ClickSubmit =
     (if submitDisabled isLoading s then s else form_handleSubmit s)"
| "handleEvent isLoading s Rerender = s"

definition step :: "bool \<Rightarrow> FormState \<Rightarrow> event \<Rightarrow> FormState" where
  "step isLoading s e = handleEvent isLoading (render isLoading s) e"

fun run :: "FormState \<Rightarrow> (bool \<times> event) list \<Rightarrow> FormState" where
  "run s [] = s"
| "run s ((isLoading, e) # es) = run (step isLoading s e) es"

text \<open>The states the form can be in: those some sequence of events leads to from a mount.\<close>

inductive reachable :: "FormState \<Rightarrow> bool" where
  reachable_mount: "reachable (mount isLoading prop)"
| reachable_step: "reachable s \<Longrightarrow> reachable (step isLoading s e)"

text \<open>
  The states in which the library has validated after a render read the validity flag:
  the form was mounted with \<open>isLoading\<close> false, or a field was changed or Reset was
  clicked with \<open>isLoading\<close> false; any events may have followed.
\<close>

inductive validated :: "FormState \<Rightarrow> bool" where
  validated_mount: "validated (mount False prop)"
| validated_Change: "reachable s \<Longrightarrow> validated (step False s (Change f v))"
| validated_ClickReset: "reachable s \<Longrightarrow> validated (step False s ClickReset)"
| validated_step: "validated s \<Longrightarrow> validated (step isLoading s e)"

text \<open>
  Two invariants of the validity flag, proved below.  In every state of the form the flag
  is set only for values the schema accepts: a validation alone sets it, and from the
  first validation on every change of the values validates again.  In a validated state
  the flag is the verdict of the schema on the current values.
\<close>

definition flagSound :: "FormState \<Rightarrow> bool" where
  "flagSound s \<longleftrightarrow> (isValid s \<longrightarrow> isValidSubscribed s \<and> schemaAccepts (formValues s))"

definition flagSynced :: "FormState \<Rightarrow> bool" where
  "flagSynced s \<longleftrightarrow> isValidSubscribed s \<and> isValid s = schemaAccepts (formValues s)"

section \<open>The constraints of the specification's data model\<close>

text \<open>
  The table of the specification, in its words: the name has length at least 2 after
  trimming; category, total quantity, model and location are non-empty after trimming;
  the acquisition date is non-empty.  This predicate is compared with the schema of the
  source below.
\<close>

definition spec_name_ok :: "jsstring \<Rightarrow> bool" where
  "spec_name_ok v \<longleftrightarrow> 2 \<le> length (trim v)"

definition spec_text_ok :: "jsstring \<Rightarrow> bool" where
  "spec_text_ok v \<longleftrightarrow> trim v \<noteq> []"

definition spec_submittable :: "ITEquipmentFormValues \<Rightarrow> bool" where
  "spec_submittable d \<longleftrightarrow>
     spec_name_ok (name d) \<and> spec_text_ok (category d) \<and> spec_text_ok (totalQuantity d) \<and>
     spec_text_ok (model d) \<and> spec_text_ok (location d) \<and> dateAcquired d \<noteq> []"

section \<open>Example values\<close>

text \<open>
  The fully valid draft of the specification's testable properties, the same draft with
  the name a space followed by one character, and with the four text fields after the
  name a single space each.
\<close>

definition validDraft :: ITEquipmentFormValues where
  "validDraft =
     \<lparr>name = js ''Dell Laptop'', category = js ''Laptop'', totalQuantity = js ''5'',
      model = js ''Latitude 5520'', location = js ''Office A'',
      dateAcquired = js ''2024-01-15''\<rparr>"

definition paddedDraft :: ITEquipmentFormValues where
  "paddedDraft = validDraft\<lparr>name := js '' A''\<rparr>"

definition blankDraft :: ITEquipmentFormValues where
  "blankDraft = validDraft\<lparr>category := js '' '', totalQuantity := js '' '', model := js '' '', location := js '' ''\<rparr>"

definition singleCharDraft :: ITEquipmentFormValues where
  "singleCharDraft = validDraft\<lparr>name := js ''A''\<rparr>"

definition partialDefaults :: PartialFormValues where
  "partialDefaults =
     \<lparr>name = Some (js ''Dell''), category = None, totalQuantity = Some (js ''5''),
      model = None, location = None, dateAcquired = None\<rparr>"

section \<open>Properties of trimming and of the schema\<close>

lemmas schema_defs = fieldErrors_def parseIssues_def itEquipmentFormSchema_def checkField_def string_min_def
lemmas trim_defs = trim_def trimStart_def trimEnd_def isWhiteSpace_def whiteSpace_def
lemmas example_defs = validDraft_def paddedDraft_def blankDraft_def singleCharDraft_def js_def

lemma schemaAccepts_iff:
  "schemaAccepts d \<longleftrightarrow> 2 \<le> length (name d) \<and> category d \<noteq> [] \<and> totalQuantity d \<noteq> []
     \<and> model d \<noteq> [] \<and> location d \<noteq> [] \<and> dateAcquired d \<noteq> []"
  by (auto simp add: schemaAccepts_def safeParse_def Let_def schema_defs)

text \<open>
  Trimming removes white space only, from the two ends only, and leaves none at either
  end; in particular it never lengthens a string.
\<close>

lemma length_trim: "length (trim s) \<le> length s"
  unfolding trim_def trimStart_def trimEnd_def
  by (metis length_dropWhile_le length_rev le_trans)

lemma trimEnd_decomp: "t = trimEnd t @ rev (takeWhile isWhiteSpace (rev t))"
proof -
  have "rev (takeWhile isWhiteSpace (rev t) @ dropWhile isWhiteSpace (rev t)) = rev (rev t)"
    by (simp only: takeWhile_dropWhile_id)
  then have "rev (dropWhile isWhiteSpace (rev t)) @ rev (takeWhile isWhiteSpace (rev t)) = t"
    by (simp only: rev_append rev_rev_ident)
  then show ?thesis
    by (simp only: trimEnd_def)
qed

lemma trim_decomp:
  "s = takeWhile isWhiteSpace s @ trim s @ rev (takeWhile isWhiteSpace (rev (trimStart s)))"
proof -
  have "s = takeWhile isWhiteSpace s @ trimStart s"
    by (simp add: trimStart_def)
  moreover have "trimStart s = trim s @ rev (takeWhile isWhiteSpace (rev (trimStart s)))"
    unfolding trim_def by (rule trimEnd_decomp)
  ultimately show ?thesis by simp
qed

lemma trim_removes_only_whiteSpace:
  "\<exists>pre post. s = pre @ trim s @ post \<and> list_all isWhiteSpace pre \<and> list_all isWhiteSpace post"
proof -
  have "list_all isWhiteSpace (takeWhile isWhiteSpace s)"
    by (simp add: list_all_iff) (meson set_takeWhileD)
  moreover have "list_all isWhiteSpace (rev (takeWhile isWhiteSpace (rev (trimStart s))))"
    by (simp add: list_all_iff) (meson set_takeWhileD)
  ultimately show ?thesis
    using trim_decomp by blast
qed

lemma trim_last: "trim s \<noteq> [] \<Longrightarrow> \<not> isWhiteSpace (last (trim s))"
  unfolding trim_def trimEnd_def
  by (simp add: last_rev hd_dropWhile)

lemma trim_hd: "trim s \<noteq> [] \<Longrightarrow> \<not> isWhiteSpace (hd (trim s))"
proof -
  assume ne: "trim s \<noteq> []"
  have eq: "trimStart s = trim s @ rev (takeWhile isWhiteSpace (rev (trimStart s)))"
    unfolding trim_def by (rule trimEnd_decomp)
  then have "hd (trimStart s) = hd (trim s)"
    using ne by (metis hd_append2)
  moreover have "trimStart s \<noteq> []"
    using eq ne by auto
  then have "\<not> isWhiteSpace (hd (trimStart s))"
    unfolding trimStart_def by (rule hd_dropWhile)
  ultimately show ?thesis by simp
qed

lemma globalIssues_parseIssues: "globalIssues (parseIssues d) = []"
  by (simp add: globalIssues_def schema_defs)

lemma fieldErrors_Name: "fieldErrors d Name = (if length (name d) < 2 then Some ''Name must be at least 2 characters'' else None)"
  by (simp add: schema_defs)


lemma orEmpty_cases: "orEmpty v = (case v of None \<Rightarrow> [] | Some s \<Rightarrow> s)"
  by (simp add: orEmpty_def truthy_def split: option.splits)

lemma useFormDefaultValues_field:
  "getField f (useFormDefaultValues prop) =
     (case prop of None \<Rightarrow> [] | Some p \<Rightarrow> (case getField f p of None \<Rightarrow> [] | Some v \<Rightarrow> v))"
  by (cases f) (simp_all add: useFormDefaultValues_def defaultValuesParam_def Let_def orEmpty_cases split: option.splits)

lemma useFormDefaultValues_defined: "useFormDefaultValues (Some (defined d)) = d"
  by (simp add: useFormDefaultValues_def defined_def Let_def orEmpty_cases)

lemma fieldErrors_text:
  "f \<in> {Category, TotalQuantity, Model, Location, DateAcquired} \<Longrightarrow>
   fieldErrors d f = None \<longleftrightarrow> getField f d \<noteq> []"
  by (auto simp add: schema_defs)

lemma fieldErrors_short_name:
  "length (name d) < 2 \<Longrightarrow> fieldErrors d Name = Some ''Name must be at least 2 characters''"
  by (simp add: fieldErrors_Name)

lemma toFieldErrors_safeParse:
  "safeParse d = Inl issues \<Longrightarrow> toFieldErrors issues = fieldErrors d"
  by (auto simp add: safeParse_def Let_def fieldErrors_def split: if_splits)

lemma spec_text_ok_nonempty: "spec_text_ok v \<Longrightarrow> v \<noteq> []"
  by (auto simp add: spec_text_ok_def trim_defs)


section \<open>Properties of the form\<close>

lemmas form_defs = updateValid_def render_def form_reset_def form_handleSubmit_def handleSubmit_def

text \<open>What the mount establishes.\<close>

lemma formValues_mount: "formValues (mount isLoading prop) = useFormDefaultValues prop"
  by (simp add: mount_def form_defs)

lemma formDefaults_mount: "formDefaults (mount isLoading prop) = useFormDefaultValues prop"
  by (simp add: mount_def form_defs)

lemma onSubmitCalls_mount: "onSubmitCalls (mount isLoading prop) = []"
  by (simp add: mount_def form_defs)

lemma isValid_mount:
  "isValid (mount isLoading prop) \<longleftrightarrow> \<not> isLoading \<and> schemaAccepts (useFormDefaultValues prop)"
  by (simp add: mount_def form_defs)

text \<open>No event changes the default values of the mount.\<close>

lemma formDefaults_step: "formDefaults (step isLoading s e) = formDefaults s"
  by (cases e) (simp_all add: step_def Let_def form_defs split: sum.splits)

lemma formDefaults_run: "formDefaults (run s es) = formDefaults s"
  by (induction s es rule: run.induct) (simp_all add: formDefaults_step)

text \<open>What \<open>form.handleSubmit\<close> and an event do to the calls of \<open>onSubmit\<close>.\<close>

lemma form_handleSubmit_invalid:
  "\<not> schemaAccepts (formValues s) \<Longrightarrow> onSubmitCalls (form_handleSubmit s) = onSubmitCalls s"
  by (simp add: schemaAccepts_def form_handleSubmit_def split: sum.splits)

lemma form_handleSubmit_valid:
  "schemaAccepts (formValues s) \<Longrightarrow>
   onSubmitCalls (form_handleSubmit s) = onSubmitCalls s @ [sanitizedValues (defined (formValues s))]"
  by (auto simp add: schemaAccepts_def form_handleSubmit_def handleSubmit_def safeParse_def Let_def
      split: sum.splits if_splits)

lemma step_onSubmitCalls:
  "onSubmitCalls (step isLoading s e) =
     (if e = ClickSubmit \<and> \<not> isLoading \<and> isValid s \<and> schemaAccepts (formValues s)
      then onSubmitCalls s @ [sanitizedValues (defined (formValues s))]
      else onSubmitCalls s)"
proof (cases e)
  case (Change f v)
  then show ?thesis
    by (simp add: step_def Let_def updateValid_def render_def)
next
  case ClickReset
  then show ?thesis
    by (simp add: step_def form_reset_def updateValid_def render_def)
next
  case ClickSubmit
  show ?thesis
  proof (cases "schemaAccepts (formValues s)")
    case True
    then show ?thesis
      using ClickSubmit form_handleSubmit_valid [of "s\<lparr>isValidSubscribed := True\<rparr>"]
      by (simp add: step_def submitDisabled_def render_def)
  next
    case False
    then show ?thesis
      using ClickSubmit form_handleSubmit_invalid [of "s\<lparr>isValidSubscribed := True\<rparr>"]
      by (simp add: step_def submitDisabled_def render_def)
  qed
next
  case Rerender
  then show ?thesis
    by (simp add: step_def render_def)
qed

lemma flagSound_step: "flagSound s \<Longrightarrow> flagSound (step isLoading s e)"
  by (cases e)
    (auto simp add: flagSound_def step_def Let_def form_defs submitDisabled_def
      split: sum.splits if_splits)

lemma reachable_flagSound: "reachable s \<Longrightarrow> flagSound s"
proof (induction rule: reachable.induct)
  case (reachable_mount isLoading p)
  show ?case
    by (simp add: flagSound_def mount_def form_defs)
next
  case (reachable_step s isLoading e)
  from reachable_step.IH show ?case
    by (rule flagSound_step)
qed

lemma reachable_isValid: "reachable s \<Longrightarrow> isValid s \<Longrightarrow> schemaAccepts (formValues s)"
  using reachable_flagSound [of s] by (simp add: flagSound_def split: if_splits)

lemma reachable_run: "reachable s \<Longrightarrow> reachable (run s es)"
  by (induction s es rule: run.induct) (simp_all add: reachable_step)

lemma flagSynced_step: "flagSynced s \<Longrightarrow> flagSynced (step isLoading s e)"
  by (cases e)
    (auto simp add: flagSynced_def step_def Let_def form_defs submitDisabled_def
      split: sum.splits if_splits)

lemma flagSynced_run: "flagSynced s \<Longrightarrow> flagSynced (run s es)"
  by (induction s es rule: run.induct) (simp_all add: flagSynced_step)





lemma validated_reachable: "validated s \<Longrightarrow> reachable s"
  by (induction rule: validated.induct) (simp_all add: reachable.intros)


text \<open>
  A form mounted while \<open>isLoading\<close> is true has not read the flag: the flag stays false
  when \<open>isLoading\<close> turns false, whatever the values are, until a change or a reset.
\<close>

lemma mounted_loading_stays_disabled:
  "submitDisabled False (run (mount True prop) [(True, Change f v), (False, Rerender)])"
  by (simp add: submitDisabled_def step_def Let_def mount_def form_defs)

lemma submit_mounted_valid:
  "schemaAccepts d \<Longrightarrow>
   onSubmitCalls (step False (mount False (Some (defined d))) ClickSubmit) = [sanitizedValues (defined d)]"
  by (simp add: step_onSubmitCalls formValues_mount isValid_mount onSubmitCalls_mount
      useFormDefaultValues_defined)

section \<open>The claims\<close>

text \<open>
  C1 (as amended).  The schema accepts the name exactly when the name as typed, not
  trimmed, has at least 2 code units.  Hence every name whose trimmed length is at least 2
  is accepted; the converse fails, since padding counts towards the length.
\<close>

theorem schema_name_untrimmed_length:
  "(fieldErrors d Name = None \<longleftrightarrow> 2 \<le> length (name d)) \<and>
   (spec_name_ok (name d) \<longrightarrow> fieldErrors d Name = None)"
  using length_trim [of "name d"] by (auto simp add: fieldErrors_Name spec_name_ok_def)

theorem schema_name_untrimmed_length_witness:
  "spec_name_ok (name validDraft) \<and> fieldErrors validDraft Name = None \<and>
   2 \<le> length (name validDraft)"
  using schema_name_untrimmed_length [of validDraft]
  by (simp add: example_defs spec_name_ok_def trim_defs)

text \<open>
  C1 as stated fails: the name \<open>" A"\<close> has trimmed length 1, below 2, and the schema
  accepts it.
\<close>

theorem schema_name_trimmed_counterexample:
  "fieldErrors paddedDraft Name = None \<and> \<not> spec_name_ok (name paddedDraft)"
  by (simp add: schema_defs example_defs spec_name_ok_def trim_defs)

text \<open>
  C2 (as amended).  For each of category, total quantity, model and location, the schema
  accepts the field exactly when the field as typed, not trimmed, is non-empty.  Hence a
  field that is non-empty after trimming is accepted; the converse fails.
\<close>

theorem schema_text_untrimmed_nonempty:
  "f \<in> {Category, TotalQuantity, Model, Location} \<Longrightarrow>
   (fieldErrors d f = None \<longleftrightarrow> getField f d \<noteq> []) \<and>
   (spec_text_ok (getField f d) \<longrightarrow> fieldErrors d f = None)"
proof -
  assume f: "f \<in> {Category, TotalQuantity, Model, Location}"
  then have "f \<in> {Category, TotalQuantity, Model, Location, DateAcquired}"
    by auto
  then have eq: "fieldErrors d f = None \<longleftrightarrow> getField f d \<noteq> []"
    by (rule fieldErrors_text)
  then show ?thesis
    using spec_text_ok_nonempty [of "getField f d"] by auto
qed

theorem schema_text_untrimmed_nonempty_witness:
  "spec_text_ok (location validDraft) \<and> fieldErrors validDraft Location = None \<and> location validDraft \<noteq> []"
  using schema_text_untrimmed_nonempty [of Location validDraft]
  by (simp add: example_defs spec_text_ok_def trim_defs)

text \<open>
  C2 as stated fails: a single space is empty after trimming, and the schema accepts it
  in each of the four fields.
\<close>

theorem schema_text_trimmed_counterexample:
  "fieldErrors blankDraft Category = None \<and> \<not> spec_text_ok (category blankDraft) \<and>
   fieldErrors blankDraft TotalQuantity = None \<and> \<not> spec_text_ok (totalQuantity blankDraft) \<and>
   fieldErrors blankDraft Model = None \<and> \<not> spec_text_ok (model blankDraft) \<and>
   fieldErrors blankDraft Location = None \<and> \<not> spec_text_ok (location blankDraft)"
  by (simp add: schema_defs example_defs spec_text_ok_def trim_defs)




text \<open>
  C4.  \<open>handleSubmit\<close> calls \<open>onSubmit\<close> once, with the five text fields trimmed, the
  date as it is, and the empty string for every field that is undefined.
\<close>

theorem handleSubmit_sanitizes:
  "handleSubmit values s =
     s\<lparr>onSubmitCalls := onSubmitCalls s @
       [\<lparr>name = (case name values of None \<Rightarrow> [] | Some v \<Rightarrow> trim v),
         category = (case category values of None \<Rightarrow> [] | Some v \<Rightarrow> trim v),
         totalQuantity = (case totalQuantity values of None \<Rightarrow> [] | Some v \<Rightarrow> trim v),
         model = (case model values of None \<Rightarrow> [] | Some v \<Rightarrow> trim v),
         location = (case location values of None \<Rightarrow> [] | Some v \<Rightarrow> trim v),
         dateAcquired = (case dateAcquired values of None \<Rightarrow> [] | Some v \<Rightarrow> v)\<rparr>]\<rparr>"
  by (simp add: handleSubmit_def sanitizedValues_def orEmpty_cases optTrim_def split: option.splits)


theorem handleSubmit_sanitizes_witness:
  "onSubmitCalls (handleSubmit
      \<lparr>name = Some (js ''  Dell Laptop ''), category = Some (js ''Laptop''),
       totalQuantity = None, model = Some (js '' ''), location = Some (js ''Office A  ''),
       dateAcquired = Some (js '' 2024-01-15'')\<rparr> (mount False None)) =
     [\<lparr>name = js ''Dell Laptop'', category = js ''Laptop'', totalQuantity = [],
       model = [], location = js ''Office A'', dateAcquired = js '' 2024-01-15''\<rparr>]"
  using handleSubmit_sanitizes
    [of "\<lparr>name = Some (js ''  Dell Laptop ''), category = Some (js ''Laptop''),
       totalQuantity = None, model = Some (js '' ''), location = Some (js ''Office A  ''),
       dateAcquired = Some (js '' 2024-01-15'')\<rparr>" "mount False None"]
  by (simp add: onSubmitCalls_mount js_def trim_defs)

text \<open>
  C5 (as amended).  While the current values violate the schema, as the schema checks them
  (untrimmed), no event calls \<open>onSubmit\<close>, and \<open>form.handleSubmit\<close> does not either.
  \<open>onSubmit\<close> is called by a submit action only, never by a change, a reset or a
  render, and only with \<open>isLoading\<close> false, the validity flag set and the current values
  passing the schema; it is then called once, with the sanitized values.  Nothing is
  promised of the sanitized values themselves.
\<close>

theorem onSubmit_only_on_valid_submit:
  "(\<not> schemaAccepts (formValues s) \<longrightarrow>
      onSubmitCalls (step isLoading s e) = onSubmitCalls s \<and>
      onSubmitCalls (form_handleSubmit s) = onSubmitCalls s) \<and>
   onSubmitCalls (step isLoading s e) =
     (if e = ClickSubmit \<and> \<not> isLoading \<and> isValid s \<and> schemaAccepts (formValues s)
      then onSubmitCalls s @ [sanitizedValues (defined (formValues s))]
      else onSubmitCalls s)"
  by (simp add: step_onSubmitCalls form_handleSubmit_invalid)

theorem onSubmit_only_on_valid_submit_witness:
  "\<not> schemaAccepts (formValues (mount False None)) \<and>
   onSubmitCalls (step False (mount False None) ClickSubmit) = [] \<and>
   onSubmitCalls (form_handleSubmit (mount False None)) = [] \<and>
   onSubmitCalls (step False (mount False (Some (defined validDraft))) (Change Name (js ''HP''))) = [] \<and>
   onSubmitCalls (step False (mount False (Some (defined validDraft))) ClickSubmit) =
     [sanitizedValues (defined validDraft)]"
proof -
  have a: "\<not> schemaAccepts (formValues (mount False None))"
    by (simp add: formValues_mount schemaAccepts_iff useFormDefaultValues_def
        defaultValuesParam_def Let_def orEmpty_cases)
  have b: "schemaAccepts validDraft"
    by (simp add: schemaAccepts_iff example_defs)
  show ?thesis
    using a b
      onSubmit_only_on_valid_submit [of "mount False None" False ClickSubmit]
      onSubmit_only_on_valid_submit [of "mount False (Some (defined validDraft))" False
        "Change Name (js ''HP'')"]
      onSubmit_only_on_valid_submit [of "mount False (Some (defined validDraft))" False ClickSubmit]
    by (simp add: onSubmitCalls_mount formValues_mount isValid_mount useFormDefaultValues_defined)
qed

text \<open>
  C5 as stated fails: mounted with a single space in category, total quantity, model and
  location, the form passes the schema and a submit click calls \<open>onSubmit\<close>.  The draft
  in the form violates the constraints of the table, and the draft \<open>onSubmit\<close> receives,
  whose category is empty, fails the schema.
\<close>

theorem onSubmit_invalid_draft_counterexample:
  "onSubmitCalls (step False (mount False (Some (defined blankDraft))) ClickSubmit) =
     [sanitizedValues (defined blankDraft)] \<and>
   category (sanitizedValues (defined blankDraft)) = [] \<and>
   fieldErrors (sanitizedValues (defined blankDraft)) Category = Some ''Category is required'' \<and>
   \<not> schemaAccepts (sanitizedValues (defined blankDraft)) \<and>
   \<not> spec_submittable (formValues (mount False (Some (defined blankDraft))))"
proof -
  have v: "schemaAccepts blankDraft"
    by (simp add: schemaAccepts_iff example_defs)
  have c: "category (sanitizedValues (defined blankDraft)) = []"
    by (simp add: sanitizedValues_def defined_def orEmpty_cases optTrim_def example_defs trim_defs)
  have "fieldErrors (sanitizedValues (defined blankDraft)) Category = Some ''Category is required''"
    using c by (simp add: schema_defs)
  moreover have "\<not> spec_submittable (formValues (mount False (Some (defined blankDraft))))"
    by (simp add: formValues_mount useFormDefaultValues_defined spec_submittable_def
        spec_text_ok_def example_defs trim_defs)
  ultimately show ?thesis
    using c submit_mounted_valid [OF v] by (simp add: schemaAccepts_iff)
qed

text \<open>
  C6.  Sanitization does not preserve validity: the values with the name \<open>" A"\<close> pass
  the schema, the form submits them, and \<open>onSubmit\<close> receives the name \<open>"A"\<close>, which
  the schema rejects.
\<close>

theorem sanitization_breaks_validity:
  "\<exists>d. schemaAccepts d \<and> name d = js '' A'' \<and>
     onSubmitCalls (step False (mount False (Some (defined d))) ClickSubmit) = [sanitizedValues (defined d)] \<and>
     name (sanitizedValues (defined d)) = js ''A'' \<and>
     fieldErrors (sanitizedValues (defined d)) Name = Some ''Name must be at least 2 characters'' \<and>
     \<not> schemaAccepts (sanitizedValues (defined d))"
proof (rule exI [of _ paddedDraft], intro conjI)
  show v: "schemaAccepts paddedDraft"
    by (simp add: schemaAccepts_iff example_defs)
  show "name paddedDraft = js '' A''"
    by (simp add: example_defs)
  show "onSubmitCalls (step False (mount False (Some (defined paddedDraft))) ClickSubmit) =
      [sanitizedValues (defined paddedDraft)]"
    using v by (rule submit_mounted_valid)
  show n: "name (sanitizedValues (defined paddedDraft)) = js ''A''"
    by (simp add: sanitizedValues_def defined_def orEmpty_cases optTrim_def example_defs trim_defs)
  show "fieldErrors (sanitizedValues (defined paddedDraft)) Name = Some ''Name must be at least 2 characters''"
    by (simp add: fieldErrors_Name n) (simp add: js_def)
  show "\<not> schemaAccepts (sanitizedValues (defined paddedDraft))"
    by (simp add: schemaAccepts_iff n) (simp add: js_def)
qed

theorem sanitization_breaks_validity_witness:
  "\<exists>d. schemaAccepts d \<and> \<not> schemaAccepts (sanitizedValues (defined d))"
  using sanitization_breaks_validity by blast

text \<open>
  C7.  When the name is the single character \<open>"A"\<close>, whatever the other fields hold, the
  resolver reports the message "Name must be at least 2 characters" for the name field and
  no issue for the form as a whole; in every state the form can be in the submit button
  is disabled; neither a click nor \<open>form.handleSubmit\<close> calls \<open>onSubmit\<close>; the message is
  what the form shows under the name after a submit attempt, and after \<open>"A"\<close> is typed
  into the name input.
\<close>

theorem single_char_name_blocked:
  "name (formValues s) = js ''A'' \<Longrightarrow>
   fieldErrors (formValues s) Name = Some ''Name must be at least 2 characters'' \<and>
   globalIssues (parseIssues (formValues s)) = [] \<and>
   (reachable s \<longrightarrow> submitDisabled isLoading s) \<and>
   onSubmitCalls (step isLoading s ClickSubmit) = onSubmitCalls s \<and>
   onSubmitCalls (form_handleSubmit s) = onSubmitCalls s \<and>
   formErrors (form_handleSubmit s) Name = Some ''Name must be at least 2 characters'' \<and>
   formErrors (step isLoading s' (Change Name (js ''A''))) Name = Some ''Name must be at least 2 characters''"
proof -
  assume a: "name (formValues s) = js ''A''"
  then have len: "length (name (formValues s)) < 2"
    by (simp add: js_def)
  then have inv: "\<not> schemaAccepts (formValues s)"
    by (simp add: schemaAccepts_iff)
  have e: "fieldErrors (formValues s) Name = Some ''Name must be at least 2 characters''"
    using len by (rule fieldErrors_short_name)
  obtain issues where i: "safeParse (formValues s) = Inl issues"
    using inv by (auto simp add: schemaAccepts_def split: sum.splits)
  have f: "formErrors (form_handleSubmit s) Name = Some ''Name must be at least 2 characters''"
    using e toFieldErrors_safeParse [OF i] by (simp add: form_handleSubmit_def i)
  have g: "formErrors (step isLoading s' (Change Name (js ''A''))) Name = Some ''Name must be at least 2 characters''"
    by (simp add: step_def Let_def updateValid_def render_def fieldErrors_Name) (simp add: js_def)
  have h: "submitDisabled isLoading s" if "reachable s"
    using inv reachable_isValid [OF that] by (auto simp add: submitDisabled_def)
  show ?thesis
    using inv e f g h
    by (simp add: globalIssues_parseIssues form_handleSubmit_invalid step_onSubmitCalls)
qed

theorem single_char_name_blocked_witness:
  "name (formValues (mount False (Some (defined singleCharDraft)))) = js ''A'' \<and>
   reachable (mount False (Some (defined singleCharDraft))) \<and>
   formErrors (form_handleSubmit (mount False (Some (defined singleCharDraft)))) Name = Some ''Name must be at least 2 characters'' \<and>
   submitDisabled False (mount False (Some (defined singleCharDraft))) \<and>
   onSubmitCalls (step False (mount False (Some (defined singleCharDraft))) ClickSubmit) = []"
proof -
  have a: "name (formValues (mount False (Some (defined singleCharDraft)))) = js ''A''"
    by (simp add: formValues_mount useFormDefaultValues_defined singleCharDraft_def)
  have b: "onSubmitCalls (mount False (Some (defined singleCharDraft))) = []"
    by (rule onSubmitCalls_mount)
  have r: "reachable (mount False (Some (defined singleCharDraft)))"
    by (rule reachable_mount)
  show ?thesis
    using a b r single_char_name_blocked [OF a, of False] by simp
qed

text \<open>
  C8.  While \<open>isLoading\<close> is true, Reset and submit are disabled whatever the values are,
  clicks on them change nothing, and the submit label is "Creating..."; the label is
  "Create Equipment" when \<open>isLoading\<close> is false.
\<close>

theorem loading_disables_controls:
  "resetDisabled True \<and> submitDisabled True s \<and>
   submitLabel True = ''Creating...'' \<and> submitLabel False = ''Create Equipment'' \<and>
   step True s ClickReset = s \<and> step True s ClickSubmit = s"
  by (simp add: resetDisabled_def submitDisabled_def submitLabel_def step_def render_def)

theorem loading_disables_controls_witness:
  "\<not> submitDisabled False (mount False (Some (defined validDraft))) \<and>
   submitDisabled True (mount False (Some (defined validDraft))) \<and>
   onSubmitCalls (step True (mount False (Some (defined validDraft))) ClickSubmit) = []"
proof -
  have "\<not> submitDisabled False (mount False (Some (defined validDraft)))"
    by (simp add: submitDisabled_def isValid_mount useFormDefaultValues_defined schemaAccepts_iff
        example_defs)
  moreover have "onSubmitCalls (mount False (Some (defined validDraft))) = []"
    by (rule onSubmitCalls_mount)
  ultimately show ?thesis
    using loading_disables_controls [of "mount False (Some (defined validDraft))"] by simp
qed

text \<open>
  C9.  After any sequence of events since the mount, a click on Reset with \<open>isLoading\<close>
  false sets each of the six fields to its initial default: the value the caller supplied,
  or the empty string.  With \<open>isLoading\<close> true the Reset button is disabled and a click
  changes nothing.
\<close>

theorem reset_restores_defaults:
  "getField f (formValues (step False (run (mount isLoading prop) es) ClickReset)) =
     (case prop of None \<Rightarrow> [] | Some p \<Rightarrow> (case getField f p of None \<Rightarrow> [] | Some v \<Rightarrow> v)) \<and>
   formValues (step False (run (mount isLoading prop) es) ClickReset) =
     formValues (mount isLoading prop) \<and>
   resetDisabled True \<and> step True s ClickReset = s"
proof -
  have "formValues (step False (run (mount isLoading prop) es) ClickReset) =
      formDefaults (run (mount isLoading prop) es)"
    by (simp add: step_def resetDisabled_def form_defs)
  then have "formValues (step False (run (mount isLoading prop) es) ClickReset) =
      useFormDefaultValues prop"
    by (simp add: formDefaults_run formDefaults_mount)
  then show ?thesis
    by (simp add: useFormDefaultValues_field resetDisabled_def formValues_mount step_def render_def)
qed

theorem reset_restores_defaults_witness:
  "name (formValues (run (mount False (Some partialDefaults))
      [(False, Change Name (js ''HP'')), (False, Change Model (js ''X''))])) = js ''HP'' \<and>
   name (formValues (step False (run (mount False (Some partialDefaults))
      [(False, Change Name (js ''HP'')), (False, Change Model (js ''X''))]) ClickReset)) = js ''Dell'' \<and>
   model (formValues (step False (run (mount False (Some partialDefaults))
      [(False, Change Name (js ''HP'')), (False, Change Model (js ''X''))]) ClickReset)) = []"
proof -
  have "name (formValues (run (mount False (Some partialDefaults))
      [(False, Change Name (js ''HP'')), (False, Change Model (js ''X''))])) = js ''HP''"
    by (simp add: step_def Let_def updateValid_def render_def)
  then show ?thesis
    using
      reset_restores_defaults [of Name False "Some partialDefaults"
        "[(False, Change Name (js ''HP'')), (False, Change Model (js ''X''))]", THEN conjunct1]
      reset_restores_defaults [of Model False "Some partialDefaults"
        "[(False, Change Name (js ''HP'')), (False, Change Model (js ''X''))]", THEN conjunct1]
    by (simp add: partialDefaults_def del: run.simps)
qed

text \<open>
  C10.  At mount, each of the six fields holds the caller's default when one is supplied
  and the empty string otherwise, also when the caller passes no defaults at all.
\<close>

theorem mount_merges_defaults:
  "getField f (formValues (mount isLoading prop)) =
     (case prop of None \<Rightarrow> [] | Some p \<Rightarrow> (case getField f p of None \<Rightarrow> [] | Some v \<Rightarrow> v))"
  by (simp add: formValues_mount useFormDefaultValues_field)

theorem mount_merges_defaults_witness:
  "formValues (mount False (Some partialDefaults)) =
     \<lparr>name = js ''Dell'', category = [], totalQuantity = js ''5'', model = [], location = [],
      dateAcquired = []\<rparr> \<and>
   formValues (mount True None) =
     \<lparr>name = [], category = [], totalQuantity = [], model = [], location = [], dateAcquired = []\<rparr>"
  using mount_merges_defaults [of Name False "Some partialDefaults"]
    mount_merges_defaults [of Category False "Some partialDefaults"]
    mount_merges_defaults [of TotalQuantity False "Some partialDefaults"]
    mount_merges_defaults [of Model False "Some partialDefaults"]
    mount_merges_defaults [of Location False "Some partialDefaults"]
    mount_merges_defaults [of DateAcquired False "Some partialDefaults"]
    mount_merges_defaults [of Name True None] mount_merges_defaults [of Category True None]
    mount_merges_defaults [of TotalQuantity True None] mount_merges_defaults [of Model True None]
    mount_merges_defaults [of Location True None] mount_merges_defaults [of DateAcquired True None]
  by (simp add: partialDefaults_def ITEquipmentFields.equality)

end
